theory Spec2Isabelle
  imports Complex_Main "HOL-Library.Multiset"
begin

section \<open>The monitoring backend of \<^verbatim>\<open>backend/index.js\<close>\<close>

text \<open>
  The backend keeps one in-memory snapshot (\<^verbatim>\<open>latestMetrics\<close>), refreshes it from the
  \<^verbatim>\<open>systeminformation\<close> provider on timers, pushes it over socket.io, writes one row a
  minute to the SQLite table \<^verbatim>\<open>metrics\<close> and serves \<^verbatim>\<open>GET /api/history\<close> from it.

  Conventions of the embedding.
  \<^item> A JavaScript number is a \<^typ>\<open>real\<close>: rounding, NaN and the infinities of IEEE
    doubles are not represented. A value that may be \<^verbatim>\<open>undefined\<close>, \<^verbatim>\<open>null\<close> or
    not a number is a \<^typ>\<open>real option\<close>, with \<open>None\<close> for all of these.
  \<^item> A timestamp is the number of seconds since the epoch, in UTC. SQLite keeps
    \<^verbatim>\<open>CURRENT_TIMESTAMP\<close> and \<^verbatim>\<open>datetime('now', ...)\<close> as text of the one fixed
    layout \<^verbatim>\<open>YYYY-MM-DD HH:MM:SS\<close>, on which the text order is the order of the instants.
  \<^item> Everything the process owns is one record \<open>server\<close>; a callback takes the
    state and returns the new one. A callback is modelled from the point where its
    awaited provider calls have settled, so their outcomes are arguments.
  \<^item> An exception is the left summand of \<open>error + 'a\<close>.
\<close>

datatype error = ProviderError | StorageError

subsection \<open>The table \<^verbatim>\<open>metrics\<close> (lines 17-27)\<close>

record metric_row =
  row_id :: nat
  timestamp :: int
  cpu_load :: real
  mem_percentage :: real
  net_rx :: real
  net_tx :: real
  disk_usage :: real

subsection \<open>The snapshot \<^verbatim>\<open>latestMetrics\<close> (lines 71-78)\<close>

record cpu_static =
  manufacturer :: string
  brand :: string
  speed :: real
  cores :: nat

text \<open>The object \<^verbatim>\<open>{...staticInfo.cpu, load}\<close>; \<^verbatim>\<open>{}\<close> has neither part.\<close>

record cpu_facet =
  cpu_info :: "cpu_static option"
  load :: "real option"

record mem_reading =
  mem_total :: real
  mem_free :: real
  mem_used :: real
  mem_active :: real

record mem_facet = mem_reading +
  percentage :: "real option"

record net_entry =
  iface :: string
  rx_sec :: "real option"
  tx_sec :: "real option"

text \<open>What \<^verbatim>\<open>si.networkStats()\<close> returns holds more than the three fields kept.\<close>

record net_reading = net_entry +
  operstate :: string
  rx_bytes :: real
  tx_bytes :: real

record disk_entry =
  fs :: string
  fs_type :: string
  fs_size :: real
  fs_used :: real
  available :: real
  use :: real

record disk_reading = disk_entry +
  mount :: string

record snapshot =
  cpu :: cpu_facet
  memory :: "mem_facet option"
  network :: "net_entry list"
  disk :: "disk_entry list"
  uptime :: real

datatype event = Metrics snapshot

subsection \<open>The state of the process\<close>

record server =
  metrics :: "metric_row list"
  next_rowid :: nat
  staticData :: "cpu_static option"
  latestMetrics :: snapshot
  sockets :: "nat list"
  emitted :: "(nat \<times> event) list"
  console :: "string list"

definition initial_metrics :: snapshot where
  "initial_metrics =
     \<lparr>cpu = \<lparr>cpu_info = None, load = None\<rparr>, memory = None,
      network = [], disk = [], uptime = 0\<rparr>"

text \<open>The state at start-up over a table that is already on disk.\<close>

definition initial_server :: "metric_row list \<Rightarrow> nat \<Rightarrow> server" where
  "initial_server tbl n =
     \<lparr>metrics = tbl, next_rowid = n, staticData = None, latestMetrics = initial_metrics,
      sockets = [], emitted = [], console = []\<rparr>"

text \<open>
  \<^verbatim>\<open>try { body } catch (e) { console.error(msg, e) }\<close> around a whole callback. Each body
  below throws only before its first assignment, so the handler runs on the state the
  callback started with.
\<close>

definition console_error :: "string \<Rightarrow> server \<Rightarrow> server" where
  "console_error msg s = s\<lparr>console := console s @ [msg]\<rparr>"

definition try_catch :: "server \<Rightarrow> (error + server) \<Rightarrow> string \<Rightarrow> error + server" where
  "try_catch s body msg =
     (case body of Inr s' \<Rightarrow> Inr s' | Inl e \<Rightarrow> Inr (console_error msg s))"

subsection \<open>\<^verbatim>\<open>GET /api/history\<close> (lines 30-61)\<close>

text \<open>\<^verbatim>\<open>req.query.range || '1h'\<close>: an absent parameter and the empty string are falsy.\<close>

definition range_param :: "string option \<Rightarrow> string" where
  "range_param q = (case q of None \<Rightarrow> ''1h'' | Some r \<Rightarrow> if r = [] then ''1h'' else r)"

definition timeFilter :: "string \<Rightarrow> string" where
  "timeFilter rng =
     (if rng = ''1h'' then ''-1 hour''
      else if rng = ''6h'' then ''-6 hours''
      else if rng = ''24h'' then ''-24 hours''
      else if rng = ''7d'' then ''-7 days''
      else ''-1 hour'')"

text \<open>
  SQLite's reading of the modifiers the program passes, in seconds; any other text makes
  \<^verbatim>\<open>datetime\<close> return NULL.
\<close>

definition modifier_seconds :: "string \<Rightarrow> int option" where
  "modifier_seconds m =
     (if m = ''-1 hour'' then Some (- 3600)
      else if m = ''-6 hours'' then Some (- 21600)
      else if m = ''-24 hours'' then Some (- 86400)
      else if m = ''-7 days'' then Some (- 604800)
      else None)"

definition datetime_now :: "int \<Rightarrow> string \<Rightarrow> int option" where
  "datetime_now now m = map_option (\<lambda>d. now + d) (modifier_seconds m)"

text \<open>A comparison with NULL selects no row.\<close>

definition newer_than :: "int option \<Rightarrow> metric_row \<Rightarrow> bool" where
  "newer_than bound r = (case bound of None \<Rightarrow> False | Some c \<Rightarrow> c < timestamp r)"

definition older_than :: "int option \<Rightarrow> metric_row \<Rightarrow> bool" where
  "older_than bound r = (case bound of None \<Rightarrow> False | Some c \<Rightarrow> timestamp r < c)"

text \<open>
  \<^verbatim>\<open>WHERE timestamp > datetime('now', ?) ORDER BY timestamp ASC\<close> over the table in rowid
  order; rows of equal timestamp keep that order.
\<close>

definition select_history :: "int \<Rightarrow> string \<Rightarrow> metric_row list \<Rightarrow> metric_row list" where
  "select_history now m tbl = sort_key timestamp (filter (newer_than (datetime_now now m)) tbl)"

definition two_digits :: "int \<Rightarrow> string" where
  "two_digits n = [char_of (48 + n div 10), char_of (48 + n mod 10)]"

text \<open>\<^verbatim>\<open>strftime('%H:%M', t)\<close> of an instant given in seconds.\<close>

definition strftime_HM :: "int \<Rightarrow> string" where
  "strftime_HM t = two_digits (t div 3600 mod 24) @ '':'' @ two_digits (t div 60 mod 60)"

text \<open>
  \<^verbatim>\<open>datetime(timestamp, 'localtime')\<close>: the argument \<open>tz\<close> gives the offset of local time
  from UTC, in seconds, at each instant.
\<close>

definition localtime :: "(int \<Rightarrow> int) \<Rightarrow> int \<Rightarrow> int" where
  "localtime tz t = t + tz t"

text \<open>The selected columns, under their aliases \<^verbatim>\<open>time, cpu, mem, rx, tx, disk\<close>.\<close>

record history_point =
  h_time :: string
  h_cpu :: real
  h_mem :: real
  h_rx :: real
  h_tx :: real
  h_disk :: real

definition project :: "(int \<Rightarrow> int) \<Rightarrow> metric_row \<Rightarrow> history_point" where
  "project tz r =
     \<lparr>h_time = strftime_HM (localtime tz (timestamp r)), h_cpu = cpu_load r,
      h_mem = mem_percentage r, h_rx = net_rx r, h_tx = net_tx r, h_disk = disk_usage r\<rparr>"

text \<open>
  \<^verbatim>\<open>db.prepare(...).all(timeFilter)\<close>. The argument \<open>engine\<close> is the exception the storage
  engine raises for this statement, if it raises one.
\<close>

definition db_all_history ::
  "error option \<Rightarrow> (int \<Rightarrow> int) \<Rightarrow> int \<Rightarrow> string \<Rightarrow> server \<Rightarrow> error + history_point list" where
  "db_all_history engine tz now m s =
     (case engine of Some e \<Rightarrow> Inl e
      | None \<Rightarrow> Inr (map (project tz) (select_history now m (metrics s))))"

datatype body = Rows "history_point list" | ErrorBody string

record response =
  status :: nat
  payload :: body

definition get_api_history ::
  "error option \<Rightarrow> (int \<Rightarrow> int) \<Rightarrow> int \<Rightarrow> string option \<Rightarrow> server \<Rightarrow> response \<times> server" where
  "get_api_history engine tz now q s =
     (case db_all_history engine tz now (timeFilter (range_param q)) s of
        Inr rows \<Rightarrow> (\<lparr>status = 200, payload = Rows rows\<rparr>, s)
      | Inl e \<Rightarrow> (\<lparr>status = 500, payload = ErrorBody ''Failed to fetch history''\<rparr>,
                 console_error ''Error fetching history:'' s))"

text \<open>The table of section 4.6 of the specification, in seconds.\<close>

definition spec_window :: "string option \<Rightarrow> int" where
  "spec_window q =
     (if q = Some ''1h'' then 3600
      else if q = Some ''6h'' then 6 * 3600
      else if q = Some ''24h'' then 24 * 3600
      else if q = Some ''7d'' then 7 * 86400
      else 3600)"

subsection \<open>The sampler tasks (lines 80-160)\<close>

definition getStaticData :: "(error + cpu_static) \<Rightarrow> server \<Rightarrow> cpu_static option \<times> server" where
  "getStaticData si_cpu s =
     (case staticData s of
        Some d \<Rightarrow> (Some d, s)
      | None \<Rightarrow>
          (case si_cpu of
             Inr c \<Rightarrow> (Some c, s\<lparr>staticData := Some c\<rparr>)
           | Inl e \<Rightarrow> (None, console_error ''Error getting static data:'' s)))"

text \<open>\<^verbatim>\<open>Promise.all\<close> of three calls rejects as soon as one of them rejects.\<close>

definition promise_all3 :: "error + 'a \<Rightarrow> error + 'b \<Rightarrow> error + 'c \<Rightarrow> error + 'a \<times> 'b \<times> 'c" where
  "promise_all3 a b c =
     (case a of Inl e \<Rightarrow> Inl e
      | Inr x \<Rightarrow> (case b of Inl e \<Rightarrow> Inl e
                 | Inr y \<Rightarrow> (case c of Inl e \<Rightarrow> Inl e | Inr z \<Rightarrow> Inr (x, y, z))))"

text \<open>\<^verbatim>\<open>io.emit\<close>: one delivery to each connected socket, in connection order.\<close>

definition io_emit :: "event \<Rightarrow> server \<Rightarrow> server" where
  "io_emit ev s = s\<lparr>emitted := emitted s @ map (\<lambda>k. (k, ev)) (sockets s)\<rparr>"

text \<open>
  \<^verbatim>\<open>(mem.used / mem.total) * 100\<close>. With a zero total JavaScript gives NaN or an
  infinity, no number of the model.
\<close>

definition mem_percent :: "mem_reading \<Rightarrow> real option" where
  "mem_percent m = (if mem_total m = 0 then None else Some (mem_used m / mem_total m * 100))"

definition fast_body ::
  "(error + mem_reading) \<Rightarrow> (error + real) \<Rightarrow> (error + real) \<Rightarrow> (error + cpu_static) \<Rightarrow>
   server \<Rightarrow> error + server" where
  "fast_body si_mem si_currentLoad si_time si_cpu s =
     (case promise_all3 si_mem si_currentLoad si_time of
        Inl e \<Rightarrow> Inl e
      | Inr (mem, currentLoad, up) \<Rightarrow>
          (let (staticInfo, s1) = getStaticData si_cpu s;
               m1 = (latestMetrics s1)\<lparr>cpu := \<lparr>cpu_info = staticInfo, load = Some currentLoad\<rparr>\<rparr>;
               m2 = m1\<lparr>memory := Some \<lparr>mem_total = mem_total mem, mem_free = mem_free mem,
                         mem_used = mem_used mem, mem_active = mem_active mem,
                         percentage = mem_percent mem\<rparr>\<rparr>;
               m3 = m2\<lparr>uptime := up\<rparr>;
               s2 = s1\<lparr>latestMetrics := m3\<rparr>
           in Inr (io_emit (Metrics (latestMetrics s2)) s2)))"

definition updateFastMetrics ::
  "(error + mem_reading) \<Rightarrow> (error + real) \<Rightarrow> (error + real) \<Rightarrow> (error + cpu_static) \<Rightarrow>
   server \<Rightarrow> error + server" where
  "updateFastMetrics si_mem si_currentLoad si_time si_cpu s =
     try_catch s (fast_body si_mem si_currentLoad si_time si_cpu s) ''Error updating fast metrics:''"

definition network_body :: "(error + net_reading list) \<Rightarrow> server \<Rightarrow> error + server" where
  "network_body si_networkStats s =
     (case si_networkStats of
        Inl e \<Rightarrow> Inl e
      | Inr networkStats \<Rightarrow>
          Inr (s\<lparr>latestMetrics := (latestMetrics s)\<lparr>network :=
                 map (\<lambda>i. \<lparr>iface = iface i, rx_sec = rx_sec i, tx_sec = tx_sec i\<rparr>) networkStats\<rparr>\<rparr>))"

definition updateNetworkMetrics :: "(error + net_reading list) \<Rightarrow> server \<Rightarrow> error + server" where
  "updateNetworkMetrics si_networkStats s =
     try_catch s (network_body si_networkStats s) ''Error updating network metrics:''"

definition disk_body :: "(error + disk_reading list) \<Rightarrow> server \<Rightarrow> error + server" where
  "disk_body si_fsSize s =
     (case si_fsSize of
        Inl e \<Rightarrow> Inl e
      | Inr fsSize \<Rightarrow>
          Inr (s\<lparr>latestMetrics := (latestMetrics s)\<lparr>disk :=
                 map (\<lambda>d. \<lparr>fs = fs d, fs_type = fs_type d, fs_size = fs_size d,
                           fs_used = fs_used d, available = available d, use = use d\<rparr>) fsSize\<rparr>\<rparr>))"

definition updateDiskMetrics :: "(error + disk_reading list) \<Rightarrow> server \<Rightarrow> error + server" where
  "updateDiskMetrics si_fsSize s =
     try_catch s (disk_body si_fsSize s) ''Error updating disk metrics:''"

text \<open>\<^verbatim>\<open>io.on('connection')\<close> (lines 221-228) for the socket \<open>k\<close>.\<close>

definition console_log :: "string \<Rightarrow> server \<Rightarrow> server" where
  "console_log msg s = s\<lparr>console := console s @ [msg]\<rparr>"

definition on_connection :: "nat \<Rightarrow> server \<Rightarrow> server" where
  "on_connection k s =
     (let s1 = console_log ''Client connected'' (s\<lparr>sockets := sockets s @ [k]\<rparr>)
      in s1\<lparr>emitted := emitted s1 @ [(k, Metrics (latestMetrics s1))]\<rparr>)"

subsection \<open>The recorder and the janitor (lines 163-192)\<close>

text \<open>\<^verbatim>\<open>x || 0\<close> on a number that may be missing.\<close>

definition or0 :: "real option \<Rightarrow> real" where
  "or0 v = (case v of None \<Rightarrow> 0 | Some x \<Rightarrow> if x = 0 then 0 else x)"

definition totalRx :: "snapshot \<Rightarrow> real" where
  "totalRx m = foldl (\<lambda>acc curr. acc + or0 (rx_sec curr)) 0 (network m)"

definition totalTx :: "snapshot \<Rightarrow> real" where
  "totalTx m = foldl (\<lambda>acc curr. acc + or0 (tx_sec curr)) 0 (network m)"

text \<open>\<^verbatim>\<open>latestMetrics.disk[0]?.use || 0\<close>.\<close>

definition diskUsage :: "snapshot \<Rightarrow> real" where
  "diskUsage m = or0 (case disk m of [] \<Rightarrow> None | d # _ \<Rightarrow> Some (use d))"

text \<open>
  \<^verbatim>\<open>INSERT INTO metrics (...) VALUES (?, ?, ?, ?, ?)\<close>: the id is the next of the
  AUTOINCREMENT sequence, the timestamp the store's \<^verbatim>\<open>CURRENT_TIMESTAMP\<close>.
\<close>

definition db_insert ::
  "error option \<Rightarrow> int \<Rightarrow> real \<Rightarrow> real \<Rightarrow> real \<Rightarrow> real \<Rightarrow> real \<Rightarrow> server \<Rightarrow> error + server" where
  "db_insert engine now c m r t d s =
     (case engine of Some e \<Rightarrow> Inl e
      | None \<Rightarrow>
          Inr (s\<lparr>metrics := metrics s @
                   [\<lparr>row_id = next_rowid s, timestamp = now, cpu_load = c, mem_percentage = m,
                     net_rx = r, net_tx = t, disk_usage = d\<rparr>],
                 next_rowid := Suc (next_rowid s)\<rparr>))"

definition recordHistory :: "error option \<Rightarrow> int \<Rightarrow> server \<Rightarrow> error + server" where
  "recordHistory engine now s =
     try_catch s
       (db_insert engine now
          (or0 (load (cpu (latestMetrics s))))
          (or0 (case memory (latestMetrics s) of None \<Rightarrow> None | Some m \<Rightarrow> percentage m))
          (totalRx (latestMetrics s)) (totalTx (latestMetrics s)) (diskUsage (latestMetrics s)) s)
       ''Error recording history:''"

text \<open>\<^verbatim>\<open>DELETE FROM metrics WHERE timestamp < datetime('now', '-7 days')\<close>.\<close>

definition db_delete_old :: "error option \<Rightarrow> int \<Rightarrow> server \<Rightarrow> error + server" where
  "db_delete_old engine now s =
     (case engine of Some e \<Rightarrow> Inl e
      | None \<Rightarrow>
          Inr (s\<lparr>metrics :=
                   filter (\<lambda>r. \<not> older_than (datetime_now now ''-7 days'') r) (metrics s)\<rparr>))"

definition cleanupHistory :: "error option \<Rightarrow> int \<Rightarrow> server \<Rightarrow> error + server" where
  "cleanupHistory engine now s =
     try_catch s (db_delete_old engine now s) ''Error cleaning up history:''"

subsection \<open>Faults that reach the process\<close>

text \<open>
  A listener registered with \<^verbatim>\<open>process.on\<close> receives the fault and the process goes on;
  without one Node prints the fault and exits.
\<close>

datatype process_event = UncaughtException | UnhandledRejection

datatype process_state = Alive | Exited

text \<open>\<^verbatim>\<open>backend/index.js\<close> (lines 1-233) registers no listener on \<^verbatim>\<open>process\<close>.\<close>

definition main_backend_listeners :: "process_event list" where
  "main_backend_listeners = []"

text \<open>The backend that \<^verbatim>\<open>install.sh\<close> writes when it finds no sources registers two.\<close>

definition fallback_backend_listeners :: "process_event list" where
  "fallback_backend_listeners = [UncaughtException, UnhandledRejection]"

definition process_fault :: "process_event list \<Rightarrow> process_event \<Rightarrow> server \<Rightarrow> process_state \<times> server" where
  "process_fault listeners ev s =
     (if ev \<in> set listeners then (Alive, console_error ''fault:'' s) else (Exited, s))"

subsection \<open>The snapshot after the assignments of lines 112-123\<close>

definition fast_update :: "mem_reading \<Rightarrow> real \<Rightarrow> real \<Rightarrow> (error + cpu_static) \<Rightarrow> server \<Rightarrow> snapshot" where
  "fast_update m l u si_cpu s =
     \<lparr>cpu = \<lparr>cpu_info = fst (getStaticData si_cpu s), load = Some l\<rparr>,
      memory = Some \<lparr>mem_total = mem_total m, mem_free = mem_free m, mem_used = mem_used m,
                     mem_active = mem_active m, percentage = mem_percent m\<rparr>,
      network = network (latestMetrics s), disk = disk (latestMetrics s), uptime = u\<rparr>"

subsection \<open>Sample data\<close>

definition sample_row :: "nat \<Rightarrow> int \<Rightarrow> real \<Rightarrow> metric_row" where
  "sample_row k t v =
     \<lparr>row_id = k, timestamp = t, cpu_load = v, mem_percentage = v, net_rx = v, net_tx = v,
      disk_usage = v\<rparr>"

definition sample_mem :: mem_reading where
  "sample_mem = \<lparr>mem_total = 8000, mem_free = 2000, mem_used = 6000, mem_active = 5000\<rparr>"

definition sample_net :: "net_entry list" where
  "sample_net =
     [\<lparr>iface = ''eth0'', rx_sec = Some 100, tx_sec = Some 40\<rparr>,
      \<lparr>iface = ''lo'', rx_sec = None, tx_sec = None\<rparr>,
      \<lparr>iface = ''eth1'', rx_sec = Some 25, tx_sec = Some 2\<rparr>]"

definition sample_disk :: "disk_entry list" where
  "sample_disk =
     [\<lparr>fs = ''/dev/sda1'', fs_type = ''ext4'', fs_size = 1000, fs_used = 420, available = 580,
       use = 42\<rparr>,
      \<lparr>fs = ''/dev/sdb1'', fs_type = ''ext4'', fs_size = 500, fs_used = 450, available = 50,
       use = 90\<rparr>]"

text \<open>A populated snapshot with one observer connected.\<close>

definition sample_server :: server where
  "sample_server =
     \<lparr>metrics = [sample_row 1 0 5, sample_row 2 650000 6], next_rowid = 3, staticData = None,
      latestMetrics = \<lparr>cpu = \<lparr>cpu_info = None, load = Some 55\<rparr>,
                        memory = Some \<lparr>mem_total = 8000, mem_free = 2000, mem_used = 6000,
                                       mem_active = 5000, percentage = Some 75\<rparr>,
                        network = sample_net, disk = sample_disk, uptime = 1234\<rparr>,
      sockets = [7], emitted = [], console = []\<rparr>"

section \<open>Properties of the history query\<close>

lemma resolve_window:
  "datetime_now now (timeFilter (range_param q)) = Some (now - spec_window q)"
  by (cases q) (simp_all add: datetime_now_def timeFilter_def range_param_def spec_window_def modifier_seconds_def)

lemma mset_select_history:
  "datetime_now now m = Some c \<Longrightarrow>
   mset (select_history now m tbl) = filter_mset (\<lambda>r. c < timestamp r) (mset tbl)"
  by (simp add: select_history_def newer_than_def)

lemma set_select_history:
  "datetime_now now m = Some c \<Longrightarrow>
   set (select_history now m tbl) = {r \<in> set tbl. c < timestamp r}"
  by (simp add: select_history_def newer_than_def)

lemma sorted_select_history: "sorted (map timestamp (select_history now m tbl))"
  by (simp add: select_history_def)

lemma history_ok:
  "get_api_history None tz now q s =
     (\<lparr>status = 200,
       payload = Rows (map (project tz) (select_history now (timeFilter (range_param q)) (metrics s)))\<rparr>, s)"
  by (simp add: get_api_history_def db_all_history_def)

lemma history_failed:
  "get_api_history (Some e) tz now q s =
     (\<lparr>status = 500, payload = ErrorBody ''Failed to fetch history''\<rparr>,
      console_error ''Error fetching history:'' s)"
  by (simp add: get_api_history_def db_all_history_def)

lemma metrics_console_error: "metrics (console_error msg s) = metrics s"
  by (simp add: console_error_def)

lemma metrics_get_api_history: "metrics (snd (get_api_history engine tz now q s)) = metrics s"
  by (cases engine) (simp_all add: history_ok history_failed metrics_console_error)

lemma get_api_history_cong:
  "metrics s' = metrics s \<Longrightarrow>
   fst (get_api_history engine tz now q s') = fst (get_api_history engine tz now q s)"
  by (cases engine) (simp_all add: history_ok history_failed)

text \<open>
  Claim C1. When the statement of \<^verbatim>\<open>GET /api/history\<close> executes with the lookback window
  \<open>w\<close>, the response is 200 with exactly the rows of the table whose timestamp is
  greater than \<open>now - w\<close> (as a multiset: none missing, none twice), in ascending order
  of timestamp, each projected to the local hour:minute label and the five metrics. A row
  at exactly \<open>now - w\<close> is left out, one a second later is returned. (The read that
  fails is the subject of claim C7.)
\<close>

theorem history_window_rows:
  assumes "datetime_now now (timeFilter (range_param q)) = Some (now - w)"
  shows "let sel = select_history now (timeFilter (range_param q)) (metrics s) in
     fst (get_api_history None tz now q s) =
       \<lparr>status = 200,
        payload = Rows (map (\<lambda>r. \<lparr>h_time = strftime_HM (timestamp r + tz (timestamp r)),
                                  h_cpu = cpu_load r, h_mem = mem_percentage r, h_rx = net_rx r,
                                  h_tx = net_tx r, h_disk = disk_usage r\<rparr>) sel)\<rparr>
     \<and> mset sel = filter_mset (\<lambda>r. now - w < timestamp r) (mset (metrics s))
     \<and> sorted (map timestamp sel)
     \<and> (\<forall>r \<in> set (metrics s). timestamp r = now - w \<longrightarrow> r \<notin> set sel)
     \<and> (\<forall>r \<in> set (metrics s). timestamp r = now - w + 1 \<longrightarrow> r \<in> set sel)"
proof -
  define sel where "sel = select_history now (timeFilter (range_param q)) (metrics s)"
  have body: "fst (get_api_history None tz now q s) =
       \<lparr>status = 200,
        payload = Rows (map (\<lambda>r. \<lparr>h_time = strftime_HM (timestamp r + tz (timestamp r)),
                                  h_cpu = cpu_load r, h_mem = mem_percentage r, h_rx = net_rx r,
                                  h_tx = net_tx r, h_disk = disk_usage r\<rparr>) sel)\<rparr>"
    by (simp add: history_ok sel_def project_def localtime_def)
  have content: "mset sel = filter_mset (\<lambda>r. now - w < timestamp r) (mset (metrics s))"
    unfolding sel_def using assms by (rule mset_select_history)
  have order: "sorted (map timestamp sel)"
    unfolding sel_def by (rule sorted_select_history)
  have members: "set sel = {r \<in> set (metrics s). now - w < timestamp r}"
    unfolding sel_def using assms by (rule set_select_history)
  have edge: "\<forall>r \<in> set (metrics s). timestamp r = now - w \<longrightarrow> r \<notin> set sel"
    by (simp add: members)
  have inside: "\<forall>r \<in> set (metrics s). timestamp r = now - w + 1 \<longrightarrow> r \<in> set sel"
    by (simp add: members)
  from body content order edge inside show ?thesis
    unfolding sel_def Let_def by blast
qed

theorem history_window_rows_witness:
  "datetime_now 100000 (timeFilter (range_param (Some ''6h''))) = Some (100000 - 21600)
   \<and> fst (get_api_history None (\<lambda>t. 3600) 100000 (Some ''6h'')
           (initial_server [sample_row 1 78401 3, sample_row 2 78400 2, sample_row 3 78000 1,
                            sample_row 4 78460 4] 5)) =
       \<lparr>status = 200,
        payload = Rows [\<lparr>h_time = ''22:46'', h_cpu = 3, h_mem = 3, h_rx = 3, h_tx = 3, h_disk = 3\<rparr>,
                        \<lparr>h_time = ''22:47'', h_cpu = 4, h_mem = 4, h_rx = 4, h_tx = 4, h_disk = 4\<rparr>]\<rparr>"
proof -
  have w: "datetime_now 100000 (timeFilter (range_param (Some ''6h''))) = Some (100000 - 21600)"
    by (simp add: datetime_now_def timeFilter_def range_param_def modifier_seconds_def)
  have sel: "select_history 100000 (timeFilter (range_param (Some ''6h'')))
          (metrics (initial_server [sample_row 1 78401 3, sample_row 2 78400 2, sample_row 3 78000 1,
                            sample_row 4 78460 4] 5)) = [sample_row 1 78401 3, sample_row 4 78460 4]"
    by (simp add: select_history_def w newer_than_def initial_server_def sample_row_def)
  have "fst (get_api_history None (\<lambda>t. 3600) 100000 (Some ''6h'')
           (initial_server [sample_row 1 78401 3, sample_row 2 78400 2, sample_row 3 78000 1,
                            sample_row 4 78460 4] 5)) =
       \<lparr>status = 200,
        payload = Rows (map (\<lambda>r. \<lparr>h_time = strftime_HM (timestamp r + 3600),
                                  h_cpu = cpu_load r, h_mem = mem_percentage r, h_rx = net_rx r,
                                  h_tx = net_tx r, h_disk = disk_usage r\<rparr>)
                        [sample_row 1 78401 3, sample_row 4 78460 4])\<rparr>"
    using history_window_rows [OF w, where tz = "\<lambda>t. 3600" and s =
        "initial_server [sample_row 1 78401 3, sample_row 2 78400 2, sample_row 3 78000 1,
                            sample_row 4 78460 4] 5"]
    unfolding Let_def sel by (rule conjunct1)
  then show ?thesis
    using w by (simp add: sample_row_def strftime_HM_def two_digits_def char_of_def)
qed

text \<open>
  Claim C2. The range token resolves to the window of the specification's table: one
  hour for \<^verbatim>\<open>1h\<close>, six for \<^verbatim>\<open>6h\<close>, twenty-four for \<^verbatim>\<open>24h\<close>, seven days for
  \<^verbatim>\<open>7d\<close>, one hour for any other or absent token; and a request with such an other or
  absent token gets the very response of a \<^verbatim>\<open>1h\<close> request on the same state at the same
  time.
\<close>

theorem range_token_window:
  "datetime_now now (timeFilter (range_param q)) = Some (now - spec_window q)
   \<and> (q \<notin> {Some ''1h'', Some ''6h'', Some ''24h'', Some ''7d''} \<longrightarrow>
        spec_window q = 3600
        \<and> get_api_history engine tz now q s = get_api_history engine tz now (Some ''1h'') s)"
proof -
  have same: "timeFilter (range_param q) = timeFilter (range_param (Some ''1h''))"
    if "q \<notin> {Some ''1h'', Some ''6h'', Some ''24h'', Some ''7d''}"
    using that by (cases q) (simp_all add: timeFilter_def range_param_def)
  have "spec_window q = 3600" if "q \<notin> {Some ''1h'', Some ''6h'', Some ''24h'', Some ''7d''}"
    using that by (simp add: spec_window_def)
  moreover have "get_api_history engine tz now q s = get_api_history engine tz now (Some ''1h'') s"
    if "q \<notin> {Some ''1h'', Some ''6h'', Some ''24h'', Some ''7d''}"
    using same [OF that] by (simp add: get_api_history_def)
  ultimately show ?thesis
    using resolve_window [of now q] by blast
qed

theorem range_token_window_witness:
  "datetime_now 100000 (timeFilter (range_param (Some ''30d''))) = Some (100000 - 3600)
   \<and> get_api_history None (\<lambda>t. 0) 100000 (Some ''30d'') (initial_server [sample_row 1 99000 5] 2)
     = get_api_history None (\<lambda>t. 0) 100000 (Some ''1h'') (initial_server [sample_row 1 99000 5] 2)
   \<and> get_api_history None (\<lambda>t. 0) 100000 None (initial_server [sample_row 1 99000 5] 2)
     = get_api_history None (\<lambda>t. 0) 100000 (Some ''1h'') (initial_server [sample_row 1 99000 5] 2)"
  using range_token_window [of 100000 "Some ''30d''" None "\<lambda>t. 0" "initial_server [sample_row 1 99000 5] 2"]
        range_token_window [of 100000 None None "\<lambda>t. 0" "initial_server [sample_row 1 99000 5] 2"]
  by (simp add: spec_window_def)

text \<open>
  Claim C7. The handler leaves the table as it found it, whatever the storage engine does;
  a read that fails is answered with status 500 and the JSON error object, a read that
  succeeds with status 200 and the array of projected rows.
\<close>

theorem history_read_only_and_status:
  "metrics (snd (get_api_history engine tz now q s)) = metrics s
   \<and> next_rowid (snd (get_api_history engine tz now q s)) = next_rowid s
   \<and> fst (get_api_history (Some e) tz now q s) =
       \<lparr>status = 500, payload = ErrorBody ''Failed to fetch history''\<rparr>
   \<and> fst (get_api_history None tz now q s) =
       \<lparr>status = 200,
        payload = Rows (map (project tz)
                    (select_history now (timeFilter (range_param q)) (metrics s)))\<rparr>"
proof -
  have "next_rowid (snd (get_api_history engine tz now q s)) = next_rowid s"
    by (cases engine) (simp_all add: history_ok history_failed console_error_def)
  then show ?thesis
    by (simp add: metrics_get_api_history history_ok history_failed)
qed

text \<open>
  Claim C9. A second request with the same range token, at the same time, on the state the
  first request left behind, gets the same response as the first.
\<close>

theorem history_query_idempotent:
  "fst (get_api_history engine tz now q (snd (get_api_history engine tz now q s))) =
   fst (get_api_history engine tz now q s)"
  by (rule get_api_history_cong) (rule metrics_get_api_history)

section \<open>Properties of the sampler tasks and the push channel\<close>

lemma try_catch_Inl: "try_catch s (Inl e) msg = Inr (console_error msg s)"
  by (simp add: try_catch_def)

lemma try_catch_Inr: "try_catch s (Inr s') msg = Inr s'"
  by (simp add: try_catch_def)

lemma console_error_frame:
  "latestMetrics (console_error msg s) = latestMetrics s"
  "emitted (console_error msg s) = emitted s"
  "sockets (console_error msg s) = sockets s"
  "next_rowid (console_error msg s) = next_rowid s"
  by (simp_all add: console_error_def)

lemma getStaticData_frame:
  "latestMetrics (snd (getStaticData si_cpu s)) = latestMetrics s"
  "emitted (snd (getStaticData si_cpu s)) = emitted s"
  "sockets (snd (getStaticData si_cpu s)) = sockets s"
  "metrics (snd (getStaticData si_cpu s)) = metrics s"
  by (simp_all add: getStaticData_def console_error_def split: option.splits sum.splits)

lemma promise_all3_rejects:
  "isl a \<or> isl b \<or> isl c \<Longrightarrow> \<exists>e. promise_all3 a b c = Inl e"
  by (cases a; cases b; cases c) (simp_all add: promise_all3_def)

lemma fast_body_rejects:
  "isl a \<or> isl b \<or> isl c \<Longrightarrow> \<exists>e. fast_body a b c si_cpu s = Inl e"
  using promise_all3_rejects [of a b c] by (auto simp: fast_body_def)

lemma updateFastMetrics_failed:
  assumes "isl a \<or> isl b \<or> isl c"
  shows "updateFastMetrics a b c si_cpu s = Inr (console_error ''Error updating fast metrics:'' s)"
proof -
  from assms obtain e where "fast_body a b c si_cpu s = Inl e"
    using fast_body_rejects by blast
  then show ?thesis by (simp add: updateFastMetrics_def try_catch_Inl)
qed

lemma updateFastMetrics_ok:
  "updateFastMetrics (Inr m) (Inr l) (Inr u) si_cpu s =
     Inr ((snd (getStaticData si_cpu s))
            \<lparr>latestMetrics := fast_update m l u si_cpu s,
             emitted := emitted s @ map (\<lambda>k. (k, Metrics (fast_update m l u si_cpu s))) (sockets s)\<rparr>)"
  by (simp add: updateFastMetrics_def try_catch_Inr fast_body_def promise_all3_def io_emit_def
      fast_update_def getStaticData_frame split_beta Let_def)

lemma updateNetworkMetrics_failed:
  "updateNetworkMetrics (Inl e) s = Inr (console_error ''Error updating network metrics:'' s)"
  by (simp add: updateNetworkMetrics_def network_body_def try_catch_Inl)

lemma updateDiskMetrics_failed:
  "updateDiskMetrics (Inl e) s = Inr (console_error ''Error updating disk metrics:'' s)"
  by (simp add: updateDiskMetrics_def disk_body_def try_catch_Inl)

lemma updateNetworkMetrics_ok:
  "updateNetworkMetrics (Inr ns) s =
     Inr (s\<lparr>latestMetrics := (latestMetrics s)\<lparr>network :=
            map (\<lambda>i. \<lparr>iface = iface i, rx_sec = rx_sec i, tx_sec = tx_sec i\<rparr>) ns\<rparr>\<rparr>)"
  by (simp add: updateNetworkMetrics_def network_body_def try_catch_Inr)

lemma updateDiskMetrics_ok:
  "updateDiskMetrics (Inr ds) s =
     Inr (s\<lparr>latestMetrics := (latestMetrics s)\<lparr>disk :=
            map (\<lambda>d. \<lparr>fs = fs d, fs_type = fs_type d, fs_size = fs_size d,
                      fs_used = fs_used d, available = available d, use = use d\<rparr>) ds\<rparr>\<rparr>)"
  by (simp add: updateDiskMetrics_def disk_body_def try_catch_Inr)

lemma fast_frame:
  "\<exists>s'. updateFastMetrics a b c si_cpu s = Inr s'
       \<and> network (latestMetrics s') = network (latestMetrics s)
       \<and> disk (latestMetrics s') = disk (latestMetrics s)"
proof (cases "isl a \<or> isl b \<or> isl c")
  case True
  then show ?thesis by (simp add: updateFastMetrics_failed console_error_frame)
next
  case False
  then obtain m l u where "a = Inr m" "b = Inr l" "c = Inr u"
    by (cases a; cases b; cases c) simp_all
  then show ?thesis by (simp add: updateFastMetrics_ok fast_update_def)
qed

lemma network_frame:
  "\<exists>s'. updateNetworkMetrics n s = Inr s'
       \<and> cpu (latestMetrics s') = cpu (latestMetrics s)
       \<and> memory (latestMetrics s') = memory (latestMetrics s)
       \<and> disk (latestMetrics s') = disk (latestMetrics s)
       \<and> uptime (latestMetrics s') = uptime (latestMetrics s)"
  by (cases n) (simp_all add: updateNetworkMetrics_failed updateNetworkMetrics_ok console_error_frame)

lemma disk_frame:
  "\<exists>s'. updateDiskMetrics d s = Inr s'
       \<and> cpu (latestMetrics s') = cpu (latestMetrics s)
       \<and> memory (latestMetrics s') = memory (latestMetrics s)
       \<and> network (latestMetrics s') = network (latestMetrics s)
       \<and> uptime (latestMetrics s') = uptime (latestMetrics s)"
  by (cases d) (simp_all add: updateDiskMetrics_failed updateDiskMetrics_ok console_error_frame)

text \<open>
  Claim C10. Every run of a sampler task, whether its provider call succeeds or fails,
  returns normally and writes only its own facets: the Fast task leaves the network and
  disk facets as they were; the Network task leaves cpu, memory, disk and uptime; the Disk
  task leaves cpu, memory, network and uptime.
\<close>

theorem samplers_write_own_facets:
  "(\<exists>s'. updateFastMetrics a b c si_cpu s = Inr s'
       \<and> network (latestMetrics s') = network (latestMetrics s)
       \<and> disk (latestMetrics s') = disk (latestMetrics s))
   \<and> (\<exists>s'. updateNetworkMetrics n s = Inr s'
       \<and> cpu (latestMetrics s') = cpu (latestMetrics s)
       \<and> memory (latestMetrics s') = memory (latestMetrics s)
       \<and> disk (latestMetrics s') = disk (latestMetrics s)
       \<and> uptime (latestMetrics s') = uptime (latestMetrics s))
   \<and> (\<exists>s'. updateDiskMetrics d s = Inr s'
       \<and> cpu (latestMetrics s') = cpu (latestMetrics s)
       \<and> memory (latestMetrics s') = memory (latestMetrics s)
       \<and> network (latestMetrics s') = network (latestMetrics s)
       \<and> uptime (latestMetrics s') = uptime (latestMetrics s))"
  using fast_frame network_frame disk_frame by blast

text \<open>
  Claim C6, as stated, fails: the Fast task also awaits \<^verbatim>\<open>getStaticData\<close>, which queries
  \<^verbatim>\<open>si.cpu()\<close> while nothing is cached. When that query is rejected and the other three
  succeed, the rejection is caught inside \<^verbatim>\<open>getStaticData\<close>, and the run goes on to rewrite
  cpu, memory and uptime and to deliver the event.
\<close>

theorem static_query_failure_counterexample:
  "load (cpu (latestMetrics sample_server)) = Some 55
   \<and> load (cpu (latestMetrics (projr
        (updateFastMetrics (Inr sample_mem) (Inr 10) (Inr 99) (Inl ProviderError) sample_server))))
       = Some 10
   \<and> emitted sample_server = []
   \<and> map fst (emitted (projr
        (updateFastMetrics (Inr sample_mem) (Inr 10) (Inr 99) (Inl ProviderError) sample_server)))
       = [7]"
  by (simp add: updateFastMetrics_ok fast_update_def sample_server_def)

text \<open>
  Claim C6, amended. When a sampler task's own provider query fails (the memory, load or
  uptime query of the Fast task, the interface query of the Network task, the filesystem
  query of the Disk task), the task returns normally (the failure stays inside the task)
  with the whole snapshot as it was before, and the Fast task delivers no event in that
  run. When instead the static cpu query fails in a Fast run that has nothing cached and
  whose own three queries succeed, the task returns normally as well, but it rewrites
  cpu (with the new load and no static fields), memory and uptime and delivers the event
  to every connected socket.
\<close>

theorem failed_sampler_keeps_snapshot:
  "(isl a \<or> isl b \<or> isl c \<longrightarrow>
      (\<exists>s'. updateFastMetrics a b c si_cpu s = Inr s'
         \<and> latestMetrics s' = latestMetrics s \<and> emitted s' = emitted s))
   \<and> (\<exists>s'. updateNetworkMetrics (Inl e) s = Inr s' \<and> latestMetrics s' = latestMetrics s)
   \<and> (\<exists>s'. updateDiskMetrics (Inl e) s = Inr s' \<and> latestMetrics s' = latestMetrics s)
   \<and> (staticData s = None \<longrightarrow>
      (\<exists>s'. updateFastMetrics (Inr m) (Inr l) (Inr u) (Inl e) s = Inr s'
         \<and> cpu (latestMetrics s') = \<lparr>cpu_info = None, load = Some l\<rparr>
         \<and> memory (latestMetrics s') =
             Some \<lparr>mem_total = mem_total m, mem_free = mem_free m, mem_used = mem_used m,
                   mem_active = mem_active m, percentage = mem_percent m\<rparr>
         \<and> uptime (latestMetrics s') = u
         \<and> emitted s' = emitted s @ map (\<lambda>k. (k, Metrics (latestMetrics s'))) (sockets s)))"
proof -
  have own: "\<exists>s'. updateFastMetrics a b c si_cpu s = Inr s'
         \<and> latestMetrics s' = latestMetrics s \<and> emitted s' = emitted s"
    if "isl a \<or> isl b \<or> isl c"
    using that by (simp add: updateFastMetrics_failed console_error_frame)
  have net: "\<exists>s'. updateNetworkMetrics (Inl e) s = Inr s' \<and> latestMetrics s' = latestMetrics s"
    by (simp add: updateNetworkMetrics_failed console_error_frame)
  have dsk: "\<exists>s'. updateDiskMetrics (Inl e) s = Inr s' \<and> latestMetrics s' = latestMetrics s"
    by (simp add: updateDiskMetrics_failed console_error_frame)
  have static: "\<exists>s'. updateFastMetrics (Inr m) (Inr l) (Inr u) (Inl e) s = Inr s'
         \<and> cpu (latestMetrics s') = \<lparr>cpu_info = None, load = Some l\<rparr>
         \<and> memory (latestMetrics s') =
             Some \<lparr>mem_total = mem_total m, mem_free = mem_free m, mem_used = mem_used m,
                   mem_active = mem_active m, percentage = mem_percent m\<rparr>
         \<and> uptime (latestMetrics s') = u
         \<and> emitted s' = emitted s @ map (\<lambda>k. (k, Metrics (latestMetrics s'))) (sockets s)"
    if "staticData s = None"
  proof -
    from that have "fst (getStaticData (Inl e) s) = None"
      by (simp add: getStaticData_def)
    then show ?thesis
      by (simp add: updateFastMetrics_ok fast_update_def)
  qed
  from own net dsk static show ?thesis by blast
qed

theorem failed_sampler_keeps_snapshot_witness:
  "isl (Inl ProviderError :: error + real)
   \<and> (\<exists>s'. updateFastMetrics (Inr sample_mem) (Inl ProviderError) (Inr 99) (Inl ProviderError)
              sample_server = Inr s'
         \<and> latestMetrics s' = latestMetrics sample_server \<and> emitted s' = [])
   \<and> staticData sample_server = None
   \<and> (\<exists>s'. updateFastMetrics (Inr sample_mem) (Inr 10) (Inr 99) (Inl ProviderError)
              sample_server = Inr s'
         \<and> cpu (latestMetrics s') = \<lparr>cpu_info = None, load = Some 10\<rparr>
         \<and> uptime (latestMetrics s') = 99
         \<and> emitted s' = [(7, Metrics (latestMetrics s'))])"
proof -
  have e: "emitted sample_server = []" "sockets sample_server = [7]"
    "staticData sample_server = None"
    by (simp_all add: sample_server_def)
  have d: "isl (Inr sample_mem :: error + mem_reading) \<or> isl (Inl ProviderError :: error + real)
        \<or> isl (Inr 99 :: error + real)"
    by simp
  note t = failed_sampler_keeps_snapshot [where a = "Inr sample_mem" and b = "Inl ProviderError"
      and c = "Inr 99" and si_cpu = "Inl ProviderError" and s = sample_server
      and m = sample_mem and l = 10 and u = 99 and e = ProviderError]
  from t d have own: "\<exists>s'. updateFastMetrics (Inr sample_mem) (Inl ProviderError) (Inr 99)
              (Inl ProviderError) sample_server = Inr s'
         \<and> latestMetrics s' = latestMetrics sample_server \<and> emitted s' = []"
    by (simp add: e)
  from t e(3) have static: "\<exists>s'. updateFastMetrics (Inr sample_mem) (Inr 10) (Inr 99)
              (Inl ProviderError) sample_server = Inr s'
         \<and> cpu (latestMetrics s') = \<lparr>cpu_info = None, load = Some 10\<rparr>
         \<and> uptime (latestMetrics s') = 99
         \<and> emitted s' = [(7, Metrics (latestMetrics s'))]"
    by (auto simp: e)
  from own static e(3) show ?thesis by simp
qed

text \<open>
  Claim C5. A Fast task whose three provider calls succeed delivers one \<^verbatim>\<open>metrics\<close> event to
  each connected socket, carrying the whole snapshot as it is after the update: the new
  cpu, memory and uptime together with the current network and disk facets. A socket that
  connects is at once sent the snapshot of that moment, ahead of every later push. A Fast
  task with a failed provider call delivers nothing.
\<close>

theorem fast_task_pushes_snapshot:
  "(\<exists>s'. updateFastMetrics (Inr m) (Inr l) (Inr u) si_cpu s = Inr s'
       \<and> emitted s' = emitted s @ map (\<lambda>k. (k, Metrics (latestMetrics s'))) (sockets s)
       \<and> load (cpu (latestMetrics s')) = Some l
       \<and> memory (latestMetrics s') =
           Some \<lparr>mem_total = mem_total m, mem_free = mem_free m, mem_used = mem_used m,
                 mem_active = mem_active m, percentage = mem_percent m\<rparr>
       \<and> uptime (latestMetrics s') = u
       \<and> network (latestMetrics s') = network (latestMetrics s)
       \<and> disk (latestMetrics s') = disk (latestMetrics s))
   \<and> sockets (on_connection k s) = sockets s @ [k]
   \<and> emitted (on_connection k s) = emitted s @ [(k, Metrics (latestMetrics s))]
   \<and> (\<exists>s'. updateFastMetrics (Inr m) (Inr l) (Inr u) si_cpu (on_connection k s) = Inr s'
       \<and> emitted s' = emitted s @ (k, Metrics (latestMetrics s)) #
            map (\<lambda>j. (j, Metrics (latestMetrics s'))) (sockets s @ [k]))
   \<and> (isl a \<or> isl b \<or> isl c \<longrightarrow>
        (\<exists>s'. updateFastMetrics a b c si_cpu s = Inr s' \<and> emitted s' = emitted s))"
proof -
  have conn: "sockets (on_connection k s) = sockets s @ [k]"
     "emitted (on_connection k s) = emitted s @ [(k, Metrics (latestMetrics s))]"
    by (simp_all add: on_connection_def console_log_def Let_def)
  show ?thesis
    by (simp add: updateFastMetrics_ok updateFastMetrics_failed console_error_frame conn
        fast_update_def)
qed

theorem fast_task_pushes_snapshot_witness:
  "isl (Inl ProviderError :: error + mem_reading)
   \<and> (\<exists>s'. updateFastMetrics (Inl ProviderError) (Inr 10) (Inr 99) (Inl ProviderError)
              (on_connection 8 sample_server) = Inr s'
         \<and> emitted s' = [(8, Metrics (latestMetrics sample_server))])"
proof -
  have e: "emitted (on_connection 8 sample_server) = [(8, Metrics (latestMetrics sample_server))]"
    by (simp add: on_connection_def console_log_def sample_server_def Let_def)
  have "isl (Inl ProviderError :: error + mem_reading) \<or> isl (Inr 10 :: error + real)
        \<or> isl (Inr 99 :: error + real)"
    by simp
  with fast_task_pushes_snapshot [where a = "Inl ProviderError" and b = "Inr 10"
      and c = "Inr 99" and si_cpu = "Inl ProviderError" and s = "on_connection 8 sample_server"]
  show ?thesis by (simp add: e)
qed

section \<open>Properties of the recorder and the janitor\<close>

lemma or0_eq: "or0 v = (case v of None \<Rightarrow> 0 | Some x \<Rightarrow> x)"
  by (simp add: or0_def split: option.splits)

lemma foldl_plus_sum_list:
  "foldl (\<lambda>acc curr. acc + f curr) a xs = a + sum_list (map f xs)" for a :: real
  by (induction xs arbitrary: a) (simp_all add: add.assoc)

lemma totalRx_sum: "totalRx m = (\<Sum>e\<leftarrow>network m. case rx_sec e of None \<Rightarrow> 0 | Some x \<Rightarrow> x)"
  by (simp add: totalRx_def foldl_plus_sum_list or0_eq)

lemma totalTx_sum: "totalTx m = (\<Sum>e\<leftarrow>network m. case tx_sec e of None \<Rightarrow> 0 | Some x \<Rightarrow> x)"
  by (simp add: totalTx_def foldl_plus_sum_list or0_eq)

lemma diskUsage_first: "diskUsage m = (case disk m of [] \<Rightarrow> 0 | d # _ \<Rightarrow> use d)"
  by (simp add: diskUsage_def or0_eq split: list.splits)

lemma recordHistory_failed:
  "recordHistory (Some e) now s = Inr (console_error ''Error recording history:'' s)"
  by (simp add: recordHistory_def db_insert_def try_catch_Inl)

lemma recordHistory_ok:
  "recordHistory None now s =
     Inr (s\<lparr>metrics := metrics s @
              [\<lparr>row_id = next_rowid s, timestamp = now,
                cpu_load = (case load (cpu (latestMetrics s)) of None \<Rightarrow> 0 | Some x \<Rightarrow> x),
                mem_percentage =
                  (case memory (latestMetrics s) of None \<Rightarrow> 0
                   | Some m \<Rightarrow> (case percentage m of None \<Rightarrow> 0 | Some p \<Rightarrow> p)),
                net_rx = (\<Sum>e\<leftarrow>network (latestMetrics s). case rx_sec e of None \<Rightarrow> 0 | Some x \<Rightarrow> x),
                net_tx = (\<Sum>e\<leftarrow>network (latestMetrics s). case tx_sec e of None \<Rightarrow> 0 | Some x \<Rightarrow> x),
                disk_usage = (case disk (latestMetrics s) of [] \<Rightarrow> 0 | d # _ \<Rightarrow> use d)\<rparr>],
            next_rowid := Suc (next_rowid s)\<rparr>)"
  by (simp add: recordHistory_def db_insert_def try_catch_Inr totalRx_sum totalTx_sum
      diskUsage_first or0_eq split: option.splits)

lemma seven_days: "datetime_now now ''-7 days'' = Some (now - 604800)"
  by (simp add: datetime_now_def modifier_seconds_def)

lemma cleanupHistory_failed:
  "cleanupHistory (Some e) now s = Inr (console_error ''Error cleaning up history:'' s)"
  by (simp add: cleanupHistory_def db_delete_old_def try_catch_Inl)

lemma cleanupHistory_ok:
  "cleanupHistory None now s =
     Inr (s\<lparr>metrics := filter (\<lambda>r. now - 604800 \<le> timestamp r) (metrics s)\<rparr>)"
  by (simp add: cleanupHistory_def db_delete_old_def try_catch_Inr seven_days older_than_def
      not_less)

lemma spec_window_bounds: "0 < spec_window q \<and> spec_window q \<le> 604800"
  by (simp add: spec_window_def)

lemma select_history_recent:
  assumes "r \<in> set (select_history now (timeFilter (range_param q)) tbl)"
  shows "now - 604800 < timestamp r"
proof -
  from assms have "now - spec_window q < timestamp r"
    by (simp add: set_select_history [OF resolve_window])
  with spec_window_bounds [of q] show ?thesis by linarith
qed

text \<open>
  Claim C3, as stated, fails: a run of the recorder whose INSERT throws is caught and
  appends no row.
\<close>

theorem recordHistory_failed_write_counterexample:
  "metrics (projr (recordHistory (Some StorageError) 60 (initial_server [] 1))) = []"
  by (simp add: recordHistory_failed console_error_def initial_server_def)

text \<open>
  Claim C3, amended. A run of the recorder whose INSERT executes appends exactly one row,
  stamped with the store's clock: its cpu_load and mem_percentage are the snapshot's cpu
  load and memory percentage (0 where the snapshot has none), net_rx and net_tx the sums
  of rx_sec and tx_sec over the network entries (a missing rate counting 0), disk_usage the
  use of the first disk entry (0 without one). With the never-populated snapshot the row
  holds five zeros. A run whose INSERT throws is caught: it returns normally, writes one
  line to the error log and leaves the table as it was.
\<close>

theorem recordHistory_appends_row:
  "recordHistory None now s =
     Inr (s\<lparr>metrics := metrics s @
              [\<lparr>row_id = next_rowid s, timestamp = now,
                cpu_load = (case load (cpu (latestMetrics s)) of None \<Rightarrow> 0 | Some x \<Rightarrow> x),
                mem_percentage =
                  (case memory (latestMetrics s) of None \<Rightarrow> 0
                   | Some m \<Rightarrow> (case percentage m of None \<Rightarrow> 0 | Some p \<Rightarrow> p)),
                net_rx = (\<Sum>e\<leftarrow>network (latestMetrics s). case rx_sec e of None \<Rightarrow> 0 | Some x \<Rightarrow> x),
                net_tx = (\<Sum>e\<leftarrow>network (latestMetrics s). case tx_sec e of None \<Rightarrow> 0 | Some x \<Rightarrow> x),
                disk_usage = (case disk (latestMetrics s) of [] \<Rightarrow> 0 | d # _ \<Rightarrow> use d)\<rparr>],
            next_rowid := Suc (next_rowid s)\<rparr>)
   \<and> (\<exists>s'. recordHistory None now (s\<lparr>latestMetrics := initial_metrics\<rparr>) = Inr s'
         \<and> metrics s' = metrics s @
              [\<lparr>row_id = next_rowid s, timestamp = now, cpu_load = 0, mem_percentage = 0,
                net_rx = 0, net_tx = 0, disk_usage = 0\<rparr>])
   \<and> (\<exists>s'. recordHistory (Some e) now s = Inr s' \<and> metrics s' = metrics s
         \<and> console s' = console s @ [''Error recording history:''])"
  by (simp add: recordHistory_ok recordHistory_failed console_error_def initial_metrics_def)

theorem recordHistory_appends_row_witness:
  "recordHistory None 700000 sample_server =
     Inr (sample_server\<lparr>metrics := metrics sample_server @
             [\<lparr>row_id = 3, timestamp = 700000, cpu_load = 55, mem_percentage = 75,
               net_rx = 125, net_tx = 42, disk_usage = 42\<rparr>],
           next_rowid := 4\<rparr>)"
proof -
  have v: "next_rowid sample_server = 3" "load (cpu (latestMetrics sample_server)) = Some 55"
    "memory (latestMetrics sample_server) =
       Some \<lparr>mem_total = 8000, mem_free = 2000, mem_used = 6000, mem_active = 5000,
             percentage = Some 75\<rparr>"
    "network (latestMetrics sample_server) = sample_net"
    "disk (latestMetrics sample_server) = sample_disk"
    by (simp_all add: sample_server_def)
  have n: "(\<Sum>e\<leftarrow>sample_net. case rx_sec e of None \<Rightarrow> 0 | Some x \<Rightarrow> x) = 125"
    "(\<Sum>e\<leftarrow>sample_net. case tx_sec e of None \<Rightarrow> 0 | Some x \<Rightarrow> x) = 42"
    "(case sample_disk of [] \<Rightarrow> 0 | d # _ \<Rightarrow> use d) = 42"
    by (simp_all add: sample_net_def sample_disk_def)
  from recordHistory_appends_row [where now = 700000 and s = sample_server and e = StorageError]
  show ?thesis by (simp add: v n)
qed

text \<open>
  Claim C4, as stated, fails: a run of the janitor whose DELETE throws is caught and
  removes nothing, however old the rows are.
\<close>

theorem cleanupHistory_failed_delete_counterexample:
  "metrics (projr (cleanupHistory (Some StorageError) 1000000 (initial_server [sample_row 1 0 5] 2)))
     = [sample_row 1 0 5]
   \<and> timestamp (sample_row 1 0 5) < 1000000 - 604800"
  by (simp add: cleanupHistory_failed console_error_def initial_server_def sample_row_def)

text \<open>
  Claim C4, amended. A run of the janitor whose DELETE executes removes exactly the rows
  with a timestamp more than seven days before the store's clock and keeps the others, in
  order; a run whose DELETE throws is caught: it returns normally, writes one line to the
  error log and leaves the table as it was. A row recorded at \<open>T\<close> is
  returned by a query made at \<open>T\<close>, for every range token. After a janitor run that executed
  later than \<open>T\<close> plus seven days, no row stamped \<open>T\<close> is in the table or in any
  query on it, and no query made from then on returns such a row from any table.
\<close>

theorem cleanupHistory_retention:
  "cleanupHistory None now s =
     Inr (s\<lparr>metrics := filter (\<lambda>r. now - 604800 \<le> timestamp r) (metrics s)\<rparr>)
   \<and> (\<exists>s'. cleanupHistory (Some e) now s = Inr s' \<and> metrics s' = metrics s
         \<and> console s' = console s @ [''Error cleaning up history:''])
   \<and> (\<exists>s' r. recordHistory None T s = Inr s' \<and> metrics s' = metrics s @ [r]
         \<and> timestamp r = T
         \<and> r \<in> set (select_history T (timeFilter (range_param q)) (metrics s')))
   \<and> (T + 604800 < now \<longrightarrow>
        (\<exists>s'. cleanupHistory None now s = Inr s'
           \<and> (\<forall>r \<in> set (metrics s'). timestamp r \<noteq> T)
           \<and> (\<forall>r \<in> set (select_history now' (timeFilter (range_param q)) (metrics s')).
                 timestamp r \<noteq> T)))
   \<and> (T + 604800 < now \<and> now \<le> now' \<longrightarrow>
        (\<forall>r \<in> set (select_history now' (timeFilter (range_param q)) tbl). timestamp r \<noteq> T))"
proof -
  have present: "\<exists>s' r. recordHistory None T s = Inr s' \<and> metrics s' = metrics s @ [r]
         \<and> timestamp r = T
         \<and> r \<in> set (select_history T (timeFilter (range_param q)) (metrics s'))"
    using spec_window_bounds [of q]
    by (simp add: recordHistory_ok set_select_history [OF resolve_window])
  have kept: "\<exists>s'. cleanupHistory (Some e) now s = Inr s' \<and> metrics s' = metrics s
         \<and> console s' = console s @ [''Error cleaning up history:'']"
    by (simp add: cleanupHistory_failed console_error_def)
  have gone: "\<exists>s'. cleanupHistory None now s = Inr s'
           \<and> (\<forall>r \<in> set (metrics s'). timestamp r \<noteq> T)
           \<and> (\<forall>r \<in> set (select_history now' (timeFilter (range_param q)) (metrics s')).
                 timestamp r \<noteq> T)" if "T + 604800 < now"
    using that by (auto simp: cleanupHistory_ok set_select_history [OF resolve_window])
  have later: "\<forall>r \<in> set (select_history now' (timeFilter (range_param q)) tbl). timestamp r \<noteq> T"
    if "T + 604800 < now \<and> now \<le> now'"
    using that select_history_recent [of _ now' q tbl] by fastforce
  from present kept gone later show ?thesis
    by (simp add: cleanupHistory_ok)
qed

theorem cleanupHistory_retention_witness:
  "(0::int) + 604800 < 700000 \<and> (700000::int) \<le> 700060
   \<and> cleanupHistory None 700000 sample_server =
       Inr (sample_server\<lparr>metrics := [sample_row 2 650000 6]\<rparr>)
   \<and> sample_row 1 0 5 \<notin> set (select_history 700060 (timeFilter (range_param (Some ''7d'')))
                                   (metrics sample_server))"
proof -
  note r = cleanupHistory_retention [where T = 0 and now = 700000 and now' = 700060
      and q = "Some ''7d''" and s = sample_server and tbl = "metrics sample_server"
      and e = StorageError]
  have f: "filter (\<lambda>r. 700000 - 604800 \<le> timestamp r) (metrics sample_server) =
      [sample_row 2 650000 6]"
    by (simp add: sample_server_def sample_row_def)
  from r have "cleanupHistory None 700000 sample_server =
       Inr (sample_server\<lparr>metrics := [sample_row 2 650000 6]\<rparr>)"
    unfolding f by (rule conjunct1)
  moreover from r have "\<forall>r \<in> set (select_history 700060 (timeFilter (range_param (Some ''7d'')))
                   (metrics sample_server)). timestamp r \<noteq> 0"
    by simp
  then have "sample_row 1 0 5 \<notin> set (select_history 700060 (timeFilter (range_param (Some ''7d'')))
                                   (metrics sample_server))"
    by (auto simp: sample_row_def)
  ultimately show ?thesis by simp
qed

section \<open>Faults outside the callbacks\<close>

lemma fallback_backend_survives:
  "fst (process_fault fallback_backend_listeners ev s) = Alive"
  by (cases ev) (simp_all add: process_fault_def fallback_backend_listeners_def)

text \<open>
  Claim C8 against \<^verbatim>\<open>backend/index.js\<close>: the module registers no listener for uncaught
  exceptions or unhandled rejections, so either fault ends the process. (The backend
  written by \<^verbatim>\<open>install.sh\<close> registers both and stays alive.)
\<close>

theorem main_backend_exits_on_fault:
  "fst (process_fault main_backend_listeners UncaughtException s) = Exited
   \<and> fst (process_fault main_backend_listeners UnhandledRejection s) = Exited"
  by (simp add: process_fault_def main_backend_listeners_def)

end
